theory Spec2Isabelle
  imports Main
begin

section \<open>JSON values and the Python operations the module applies to them\<close>

text \<open>
  Modelled from the spec: the type \<open>JsonValue\<close> of \<open>app.core.types\<close> is not part of the
  sources; the spec calls the inputs "JSON-compatible values". A value is Python's
  \<open>None\<close>, a \<open>bool\<close>, an unbounded \<open>int\<close>, a \<open>float\<close>, a \<open>str\<close>, a \<open>list\<close> or a
  \<open>dict\<close> with string keys. A dict keeps its insertion order (which \<open>json.dumps\<close>
  prints), so it is an association list; a lookup takes the first entry of a key.
  A float is carried by the text of its \<open>repr\<close>: the module only prints floats and tests
  their truth value. A string is the list of its code points, for code points below 256.
\<close>

datatype json =
    JNull
  | JBool bool
  | JInt int
  | JFloat string
  | JStr string
  | JList "json list"
  | JObj "(string \<times> json) list"

type_synonym jdict = "(string \<times> json) list"

text \<open>
  Modelled from the spec: \<open>is_json_dict\<close> and \<open>is_json_list\<close> of
  \<open>app.core.utils.json_guards\<close> are not part of the sources; they are the type guards
  \<open>isinstance(value, dict)\<close> and \<open>isinstance(value, list)\<close>.
\<close>

fun is_json_dict :: "json \<Rightarrow> bool" where
  "is_json_dict (JObj d) = True"
| "is_json_dict v = False"

fun is_json_list :: "json \<Rightarrow> bool" where
  "is_json_list (JList xs) = True"
| "is_json_list v = False"

text \<open>\<open>d.get(k)\<close>: the value of the key, \<open>None\<close> when the key is absent.\<close>

definition dict_get :: "jdict \<Rightarrow> string \<Rightarrow> json" where
  "dict_get d k = (case map_of d k of None \<Rightarrow> JNull | Some v \<Rightarrow> v)"

text \<open>\<open>k in d\<close>.\<close>

definition dict_has :: "jdict \<Rightarrow> string \<Rightarrow> bool" where
  "dict_has d k = (map_of d k \<noteq> None)"

text \<open>
  \<open>d[k] = v\<close> on a copy of \<open>d\<close>: an existing key keeps its place, a new key goes to the end.
\<close>

fun dict_set :: "jdict \<Rightarrow> string \<Rightarrow> json \<Rightarrow> jdict" where
  "dict_set [] k v = [(k, v)]"
| "dict_set (p # ps) k v = (if fst p = k then (k, v) # ps else p # dict_set ps k v)"

text \<open>Python's truth value of a JSON value, as \<open>bool(x)\<close>, \<open>if x\<close> and \<open>x or y\<close> use it.\<close>

fun truthy :: "json \<Rightarrow> bool" where
  "truthy JNull = False"
| "truthy (JBool b) = b"
| "truthy (JInt n) = (n \<noteq> 0)"
| "truthy (JFloat r) = (r \<noteq> ''0.0'' \<and> r \<noteq> ''-0.0'')"
| "truthy (JStr s) = (s \<noteq> [])"
| "truthy (JList xs) = (xs \<noteq> [])"
| "truthy (JObj d) = (d \<noteq> [])"

definition py_or :: "json \<Rightarrow> json \<Rightarrow> json" where
  "py_or a b = (if truthy a then a else b)"

text \<open>\<open>sep.join(parts)\<close>.\<close>

fun join :: "string \<Rightarrow> string list \<Rightarrow> string" where
  "join sep [] = []"
| "join sep [x] = x"
| "join sep (x # y # ys) = x @ sep @ join sep (y # ys)"

abbreviation newline :: string where
  "newline \<equiv> [CHR 0x0A]"

text \<open>\<open>"\n".join([part for part in parts if part])\<close>.\<close>

definition join_non_empty :: "string list \<Rightarrow> string" where
  "join_non_empty parts = join newline (filter (\<lambda>part. part \<noteq> []) parts)"

text \<open>
  \<open>str.strip()\<close> removes leading and trailing whitespace; below code point 256 Python's
  whitespace characters are 9 to 13, 28 to 32, 133 and 160.
\<close>

definition py_isspace :: "char \<Rightarrow> bool" where
  "py_isspace c =
     (let n = (of_char c :: nat)
      in (9 \<le> n \<and> n \<le> 13) \<or> (28 \<le> n \<and> n \<le> 32) \<or> n = 133 \<or> n = 160)"

definition py_strip :: "string \<Rightarrow> string" where
  "py_strip s = rev (dropWhile py_isspace (rev (dropWhile py_isspace s)))"

text \<open>\<open>str(n)\<close> of an integer: decimal digits, with a minus sign below zero.\<close>

definition digit_char :: "nat \<Rightarrow> char" where
  "digit_char n = ''0123456789abcdef'' ! n"

fun str_nat :: "nat \<Rightarrow> string" where
  "str_nat n = (if n < 10 then [digit_char n] else str_nat (n div 10) @ [digit_char (n mod 10)])"

declare str_nat.simps [simp del]

definition str_int :: "int \<Rightarrow> string" where
  "str_int i = (if i < 0 then CHR ''-'' # str_nat (nat (- i)) else str_nat (nat i))"

text \<open>\<open>str(b)\<close> of a bool; \<open>str(x)\<close> of a float is its \<open>repr\<close>.\<close>

definition str_bool :: "bool \<Rightarrow> string" where
  "str_bool b = (if b then ''True'' else ''False'')"

text \<open>
  \<open>json.dumps(value, ensure_ascii=False, separators=(",", ":"))\<close> of the standard library.
  A string is quoted; the quote, the backslash and the control characters below 32 are
  escaped and every other character is kept. The items of a list and the members of a
  dict, in their order, are separated by a comma alone, and a key from its value by a
  colon alone.
\<close>

definition escape_char :: "char \<Rightarrow> string" where
  "escape_char c =
     (if c = CHR 0x22 then [CHR 0x5C, CHR 0x22]
      else if c = CHR 0x5C then [CHR 0x5C, CHR 0x5C]
      else if c = CHR 0x0A then [CHR 0x5C, CHR ''n'']
      else if c = CHR 0x0D then [CHR 0x5C, CHR ''r'']
      else if c = CHR 0x09 then [CHR 0x5C, CHR ''t'']
      else if c = CHR 0x08 then [CHR 0x5C, CHR ''b'']
      else if c = CHR 0x0C then [CHR 0x5C, CHR ''f'']
      else if (of_char c :: nat) < 32
        then [CHR 0x5C, CHR ''u'', CHR ''0'', CHR ''0'',
              digit_char ((of_char c :: nat) div 16), digit_char ((of_char c :: nat) mod 16)]
      else [c])"

definition encode_basestring :: "string \<Rightarrow> string" where
  "encode_basestring s = [CHR 0x22] @ concat (map escape_char s) @ [CHR 0x22]"

definition float_dumps :: "string \<Rightarrow> string" where
  "float_dumps r =
     (if r = ''nan'' then ''NaN''
      else if r = ''inf'' then ''Infinity''
      else if r = ''-inf'' then ''-Infinity''
      else r)"

fun json_dumps :: "json \<Rightarrow> string"
  and dumps_items :: "json list \<Rightarrow> string list"
  and dumps_members :: "(string \<times> json) list \<Rightarrow> string list" where
  "json_dumps JNull = ''null''"
| "json_dumps (JBool b) = (if b then ''true'' else ''false'')"
| "json_dumps (JInt n) = str_int n"
| "json_dumps (JFloat r) = float_dumps r"
| "json_dumps (JStr s) = encode_basestring s"
| "json_dumps (JList xs) = ''['' @ join '','' (dumps_items xs) @ '']''"
| "json_dumps (JObj d) = ''{'' @ join '','' (dumps_members d) @ ''}''"
| "dumps_items [] = []"
| "dumps_items (x # xs) = json_dumps x # dumps_items xs"
| "dumps_members [] = []"
| "dumps_members (p # ps) =
     (encode_basestring (fst p) @ '':'' @ json_dumps (snd p)) # dumps_members ps"

section \<open>Errors\<close>

text \<open>
  Modelled from the spec: the exception \<open>ClientPayloadError\<close> of
  \<open>app.core.openai.exceptions\<close> is not part of the sources. Every \<open>raise\<close> of the module
  builds it from a message and \<open>param="messages"\<close>. The spec names the causes of failure;
  the tag records which \<open>raise\<close> statement built the error, in the spec's names.
\<close>

datatype error_class =
    InvalidMessageShape
  | MissingRole
  | UnsupportedRole
  | NonTextContent
  | MissingToolCallId
  | InvalidToolCall
  | MissingFunctionName

datatype error =
  ClientPayloadError (err_class: error_class) (err_message: string) (err_param: string)

section \<open>The module \<open>message_coercion\<close>\<close>

definition supported_message_roles :: "string list" where
  "supported_message_roles = [''system'', ''developer'', ''user'', ''assistant'', ''tool'']"

definition merge_instructions :: "string \<Rightarrow> string list \<Rightarrow> string" where
  "merge_instructions existing extra_parts =
     (if extra_parts = [] then existing
      else let extra = join_non_empty extra_parts
           in if extra = [] then existing
              else if existing \<noteq> [] then existing @ newline @ extra
              else extra)"

text \<open>The text of one part in the loop of \<open>_content_to_text\<close>; \<open>None\<close> when nothing is appended.\<close>

fun part_text :: "json \<Rightarrow> string option" where
  "part_text (JStr s) = Some s"
| "part_text (JObj d) = (case dict_get d ''text'' of JStr t \<Rightarrow> Some t | _ \<Rightarrow> None)"
| "part_text v = None"

fun content_to_text :: "json \<Rightarrow> string option" where
  "content_to_text JNull = None"
| "content_to_text (JStr s) = Some s"
| "content_to_text (JList xs) = Some (join_non_empty (List.map_filter part_text xs))"
| "content_to_text (JObj d) = (case dict_get d ''text'' of JStr t \<Rightarrow> Some t | _ \<Rightarrow> None)"
| "content_to_text v = None"

definition text_only_error :: "string \<Rightarrow> error" where
  "text_only_error role =
     ClientPayloadError NonTextContent (role @ '' messages must be text-only.'') ''messages''"

text \<open>
  The body of the loop of \<open>_ensure_text_only_content\<close> for one part, which is also what
  the function does with a content that is a single object: \<open>True\<close> when it goes on
  (\<open>continue\<close>, \<open>return\<close>), \<open>False\<close> when it raises.
\<close>

fun text_only_part :: "json \<Rightarrow> bool" where
  "text_only_part (JStr s) = True"
| "text_only_part (JObj d) =
     (if dict_get d ''type'' \<noteq> JNull \<and> dict_get d ''type'' \<noteq> JStr ''text'' then False
      else (case dict_get d ''text'' of JStr t \<Rightarrow> True | _ \<Rightarrow> False))"
| "text_only_part v = False"

fun ensure_text_only_content :: "json \<Rightarrow> string \<Rightarrow> error + unit" where
  "ensure_text_only_content JNull role = Inr ()"
| "ensure_text_only_content (JStr s) role = Inr ()"
| "ensure_text_only_content (JList xs) role =
     (if list_all text_only_part xs then Inr () else Inl (text_only_error role))"
| "ensure_text_only_content (JObj d) role =
     (if dict_get d ''type'' \<noteq> JNull \<and> dict_get d ''type'' \<noteq> JStr ''text''
      then Inl (text_only_error role)
      else (case dict_get d ''text'' of
              JStr t \<Rightarrow> Inr ()
            | _ \<Rightarrow> Inl (text_only_error role)))"
| "ensure_text_only_content v role = Inl (text_only_error role)"

text \<open>\<open>isinstance(x, str) and x\<close>: the string when \<open>x\<close> is a non-empty string.\<close>

fun non_empty_str :: "json \<Rightarrow> string option" where
  "non_empty_str (JStr s) = (if s \<noteq> [] then Some s else None)"
| "non_empty_str v = None"

definition audio_mime_type :: "string \<Rightarrow> string" where
  "audio_mime_type audio_format =
     (if audio_format = ''wav'' then ''audio/wav''
      else if audio_format = ''mp3'' then ''audio/mpeg''
      else ''audio/'' @ audio_format)"

definition audio_input_to_data_url :: "json \<Rightarrow> string option" where
  "audio_input_to_data_url input_audio =
     (case input_audio of
        JObj ia \<Rightarrow>
          (case (dict_get ia ''data'', dict_get ia ''format'') of
             (JStr data, JStr audio_format) \<Rightarrow>
               Some (''data:'' @ audio_mime_type audio_format @ '';base64,'' @ data)
           | _ \<Rightarrow> None)
      | _ \<Rightarrow> None)"

definition file_part_to_input_file :: "json \<Rightarrow> jdict" where
  "file_part_to_input_file file_info =
     (case file_info of
        JObj fi \<Rightarrow>
          (case non_empty_str (dict_get fi ''file_id'') of
             Some file_id \<Rightarrow> [(''type'', JStr ''input_file''), (''file_id'', JStr file_id)]
           | None \<Rightarrow>
               (case non_empty_str (dict_get fi ''file_url'') of
                  Some file_url \<Rightarrow> [(''type'', JStr ''input_file''), (''file_url'', JStr file_url)]
                | None \<Rightarrow>
                    (let file_data =
                           (case dict_get fi ''file_data'' of
                              JStr fd \<Rightarrow> JStr fd
                            | _ \<Rightarrow> (case dict_get fi ''data'' of JStr fd \<Rightarrow> JStr fd | _ \<Rightarrow> JNull))
                     in case file_data of
                          JStr fd \<Rightarrow>
                            (let mime_type =
                                   (case non_empty_str (dict_get fi ''mime_type'') of
                                      Some m \<Rightarrow> m
                                    | None \<Rightarrow>
                                        (case non_empty_str (dict_get fi ''content_type'') of
                                           Some m \<Rightarrow> m
                                         | None \<Rightarrow> ''application/octet-stream''))
                             in [(''type'', JStr ''input_file''),
                                 (''file_url'', JStr (''data:'' @ mime_type @ '';base64,'' @ fd))])
                        | _ \<Rightarrow> [(''type'', JStr ''input_file'')])))
      | _ \<Rightarrow> [(''type'', JStr ''input_file'')])"

text \<open>
  The branches of \<open>_normalize_content_part\<close> that rebuild the part: for a text part
  (\<open>part_type in ("text", "input_text")\<close>), for an image (\<open>part_type == "image_url"\<close>) and
  for an audio input (\<open>part_type == "input_audio"\<close>).
\<close>

definition text_branch :: "jdict \<Rightarrow> json" where
  "text_branch part =
     (case dict_get part ''text'' of
        JStr text \<Rightarrow> JObj [(''type'', JStr ''input_text''), (''text'', JStr text)]
      | _ \<Rightarrow> JObj part)"

definition image_url_branch :: "jdict \<Rightarrow> json" where
  "image_url_branch part =
     (let image_url = dict_get part ''image_url'';
          detail =
            (case image_url of
               JObj iu \<Rightarrow> (case dict_get iu ''detail'' of JStr dv \<Rightarrow> Some dv | _ \<Rightarrow> None)
             | _ \<Rightarrow> None);
          url =
            (case image_url of
               JObj iu \<Rightarrow> dict_get iu ''url''
             | JStr u \<Rightarrow> JStr u
             | _ \<Rightarrow> JNull)
      in case url of
           JStr u \<Rightarrow>
             JObj ([(''type'', JStr ''input_image''), (''image_url'', JStr u)]
                   @ (case detail of Some dv \<Rightarrow> [(''detail'', JStr dv)] | None \<Rightarrow> []))
         | _ \<Rightarrow> JObj part)"

definition input_audio_branch :: "jdict \<Rightarrow> json" where
  "input_audio_branch part =
     (case audio_input_to_data_url (dict_get part ''input_audio'') of
        Some data_url \<Rightarrow>
          if data_url \<noteq> []
          then JObj [(''type'', JStr ''input_file''), (''file_url'', JStr data_url)]
          else JObj part
      | None \<Rightarrow> JObj part)"

definition normalize_content_part :: "jdict \<Rightarrow> json" where
  "normalize_content_part part =
     (let part_type =
            py_or (dict_get part ''type'') (if dict_has part ''text'' then JStr ''text'' else JNull)
      in if part_type = JStr ''text'' \<or> part_type = JStr ''input_text'' then text_branch part
         else if part_type = JStr ''image_url'' then image_url_branch part
         else if part_type = JStr ''input_image'' then JObj part
         else if part_type = JStr ''input_audio'' then input_audio_branch part
         else if part_type = JStr ''file'' then JObj (file_part_to_input_file (dict_get part ''file''))
         else JObj part)"

text \<open>The body of the loop of \<open>_normalize_content_parts\<close>: what one part appends.\<close>

fun normalize_part :: "json \<Rightarrow> json" where
  "normalize_part (JStr s) = JObj [(''type'', JStr ''input_text''), (''text'', JStr s)]"
| "normalize_part (JObj d) = normalize_content_part d"
| "normalize_part v = v"

fun normalize_content_parts :: "json \<Rightarrow> json" where
  "normalize_content_parts JNull = JNull"
| "normalize_content_parts (JStr s) = JList [JObj [(''type'', JStr ''input_text''), (''text'', JStr s)]]"
| "normalize_content_parts (JList parts) = JList (map normalize_part parts)"
| "normalize_content_parts content =
     (case map normalize_part [content] of
        [] \<Rightarrow> JStr []
      | p # ps \<Rightarrow> p)"

text \<open>
  \<open>normalized is content\<close> compares object identities, which a value does not have; the
  model compares the values. Where the values are equal and the objects are not, the
  source returns a copy of the message with an equal content, which is an equal message
  (lemma \<open>normalize_message_content_eq\<close>).
\<close>

definition normalize_message_content :: "jdict \<Rightarrow> jdict" where
  "normalize_message_content message =
     (let content = dict_get message ''content''
      in if content = JNull then message
         else let normalized = normalize_content_parts content
              in if normalized = content then message
                 else dict_set message ''content'' normalized)"

fun normalize_tool_output_value :: "json \<Rightarrow> string" where
  "normalize_tool_output_value JNull = []"
| "normalize_tool_output_value (JStr s) = s"
| "normalize_tool_output_value (JList xs) =
     (let parts = List.map_filter part_text xs
      in if parts \<noteq> [] then join_non_empty parts else json_dumps (JList xs))"
| "normalize_tool_output_value (JObj d) =
     (case dict_get d ''text'' of JStr t \<Rightarrow> t | _ \<Rightarrow> json_dumps (JObj d))"
| "normalize_tool_output_value (JBool b) = str_bool b"
| "normalize_tool_output_value (JInt n) = str_int n"
| "normalize_tool_output_value (JFloat r) = r"

definition normalize_tool_message :: "jdict \<Rightarrow> error + json" where
  "normalize_tool_message message =
     (let tool_call_id = dict_get message ''tool_call_id'';
          tool_call_id_camel = dict_get message ''toolCallId'';
          call_id = dict_get message ''call_id'';
          resolved_call_id = non_empty_str tool_call_id;
          resolved_call_id =
            (if resolved_call_id = None \<and> non_empty_str tool_call_id_camel \<noteq> None
             then non_empty_str tool_call_id_camel else resolved_call_id);
          resolved_call_id =
            (if resolved_call_id = None \<and> non_empty_str call_id \<noteq> None
             then non_empty_str call_id else resolved_call_id)
      in case resolved_call_id of
           None \<Rightarrow>
             Inl (ClientPayloadError MissingToolCallId
                    (''tool messages must include '' @ [CHR 0x27] @ ''tool_call_id'' @ [CHR 0x27] @ ''.'')
                    ''messages'')
         | Some resolved \<Rightarrow>
             Inr (JObj [(''type'', JStr ''function_call_output''),
                        (''call_id'', JStr resolved),
                        (''output'', JStr (normalize_tool_output_value (dict_get message ''content'')))]))"

fun normalize_tool_call_arguments :: "json \<Rightarrow> string" where
  "normalize_tool_call_arguments JNull = ''{}''"
| "normalize_tool_call_arguments (JStr s) = s"
| "normalize_tool_call_arguments (JObj d) = json_dumps (JObj d)"
| "normalize_tool_call_arguments (JList xs) = json_dumps (JList xs)"
| "normalize_tool_call_arguments (JBool b) = str_bool b"
| "normalize_tool_call_arguments (JInt n) = str_int n"
| "normalize_tool_call_arguments (JFloat r) = r"

definition tool_call_prefix :: "nat \<Rightarrow> string" where
  "tool_call_prefix index = ''assistant tool_calls['' @ str_nat index @ '']''"

definition normalize_assistant_tool_call :: "jdict \<Rightarrow> nat \<Rightarrow> error + json" where
  "normalize_assistant_tool_call tool_call index =
     (case non_empty_str (dict_get tool_call ''id'') of
        None \<Rightarrow>
          Inl (ClientPayloadError MissingToolCallId
                 (tool_call_prefix index @ '' must include a non-empty '' @ [CHR 0x27] @ ''id''
                    @ [CHR 0x27] @ ''.'')
                 ''messages'')
      | Some call_id \<Rightarrow>
          (case dict_get tool_call ''function'' of
             JObj function \<Rightarrow>
               (case non_empty_str (dict_get function ''name'') of
                  None \<Rightarrow>
                    Inl (ClientPayloadError MissingFunctionName
                           (tool_call_prefix index @ ''.function must include a non-empty ''
                              @ [CHR 0x27] @ ''name'' @ [CHR 0x27] @ ''.'')
                           ''messages'')
                | Some name \<Rightarrow>
                    Inr (JObj [(''type'', JStr ''function_call''),
                               (''call_id'', JStr call_id),
                               (''name'', JStr name),
                               (''arguments'',
                                JStr (normalize_tool_call_arguments (dict_get function ''arguments'')))]))
           | _ \<Rightarrow>
               Inl (ClientPayloadError InvalidToolCall
                      (tool_call_prefix index @ '' must include a '' @ [CHR 0x27] @ ''function''
                         @ [CHR 0x27] @ '' object.'')
                      ''messages'')))"

text \<open>
  The body of the list loop of \<open>_has_non_empty_content\<close>: \<open>True\<close> when the part makes the
  function return \<open>True\<close>, \<open>False\<close> when the loop goes on to the next part.
\<close>

fun part_non_empty :: "json \<Rightarrow> bool" where
  "part_non_empty (JStr s) = (py_strip s \<noteq> [])"
| "part_non_empty (JObj d) =
     (case dict_get d ''text'' of
        JStr t \<Rightarrow> py_strip t \<noteq> []
      | JNull \<Rightarrow> d \<noteq> []
      | _ \<Rightarrow> False)"
| "part_non_empty v = True"

fun has_non_empty_content :: "json \<Rightarrow> bool" where
  "has_non_empty_content JNull = False"
| "has_non_empty_content (JStr s) = (py_strip s \<noteq> [])"
| "has_non_empty_content (JList xs) = list_ex part_non_empty xs"
| "has_non_empty_content (JObj d) =
     (case dict_get d ''text'' of JStr t \<Rightarrow> py_strip t \<noteq> [] | _ \<Rightarrow> d \<noteq> [])"
| "has_non_empty_content v = False"

text \<open>
  The loop over \<open>enumerate(tool_calls)\<close>, appending to \<open>normalized_items\<close>; the first
  entry that raises ends it.
\<close>

fun tool_calls_loop :: "nat \<Rightarrow> json list \<Rightarrow> json list \<Rightarrow> error + json list" where
  "tool_calls_loop index [] normalized_items = Inr normalized_items"
| "tool_calls_loop index (tool_call # rest) normalized_items =
     (case tool_call of
        JObj tc \<Rightarrow>
          (case normalize_assistant_tool_call tc index of
             Inl e \<Rightarrow> Inl e
           | Inr item \<Rightarrow> tool_calls_loop (Suc index) rest (normalized_items @ [item]))
      | _ \<Rightarrow>
          Inl (ClientPayloadError InvalidToolCall
                 (tool_call_prefix index @ '' must be an object.'') ''messages''))"

definition normalize_assistant_message_items :: "jdict \<Rightarrow> error + json list" where
  "normalize_assistant_message_items message =
     (let normalized_message = normalize_message_content message;
          content = dict_get normalized_message ''content'';
          normalized_items =
            (if has_non_empty_content content then [JObj normalized_message] else [])
      in case dict_get message ''tool_calls'' of
           JList tool_calls \<Rightarrow> tool_calls_loop 0 tool_calls normalized_items
         | _ \<Rightarrow> Inr normalized_items)"

text \<open>
  The body of the loop of \<open>coerce_messages\<close> for one message: the error it raises, or
  what it appends to \<open>instruction_parts\<close> and to \<open>input_messages\<close>.
\<close>

definition message_step :: "json \<Rightarrow> error + (string list \<times> json list)" where
  "message_step message =
     (case message of
        JObj msg \<Rightarrow>
          (case dict_get msg ''role'' of
             JStr role \<Rightarrow>
               if role \<notin> set supported_message_roles then
                 Inl (ClientPayloadError UnsupportedRole
                        (''Unsupported message role: '' @ role) ''messages'')
               else if role = ''system'' \<or> role = ''developer'' then
                 (case ensure_text_only_content (dict_get msg ''content'') role of
                    Inl e \<Rightarrow> Inl e
                  | Inr u \<Rightarrow>
                      (case content_to_text (dict_get msg ''content'') of
                         Some content_text \<Rightarrow>
                           if content_text \<noteq> [] then Inr ([content_text], []) else Inr ([], [])
                       | None \<Rightarrow> Inr ([], [])))
               else if role = ''tool'' then
                 (case normalize_tool_message msg of
                    Inl e \<Rightarrow> Inl e
                  | Inr item \<Rightarrow> Inr ([], [item]))
               else if role = ''assistant'' then
                 (case normalize_assistant_message_items msg of
                    Inl e \<Rightarrow> Inl e
                  | Inr its \<Rightarrow> Inr ([], its))
               else Inr ([], [JObj (normalize_message_content msg)])
           | _ \<Rightarrow>
               Inl (ClientPayloadError MissingRole
                      (''Each message must include a string '' @ [CHR 0x27] @ ''role'' @ [CHR 0x27] @ ''.'')
                      ''messages''))
      | _ \<Rightarrow>
          Inl (ClientPayloadError InvalidMessageShape ''Each message must be an object.'' ''messages''))"

text \<open>
  The loop over the messages, with its two accumulators; the first message that raises
  ends it.
\<close>

fun coerce_loop :: "json list \<Rightarrow> string list \<Rightarrow> json list \<Rightarrow> error + (string list \<times> json list)" where
  "coerce_loop [] instruction_parts input_messages = Inr (instruction_parts, input_messages)"
| "coerce_loop (message # rest) instruction_parts input_messages =
     (case message_step message of
        Inl e \<Rightarrow> Inl e
      | Inr (texts, its) \<Rightarrow> coerce_loop rest (instruction_parts @ texts) (input_messages @ its))"

definition coerce_messages :: "string \<Rightarrow> json list \<Rightarrow> error + (string \<times> json list)" where
  "coerce_messages existing_instructions messages =
     (case coerce_loop messages [] [] of
        Inl e \<Rightarrow> Inl e
      | Inr (instruction_parts, input_messages) \<Rightarrow>
          Inr (merge_instructions existing_instructions instruction_parts, input_messages))"

section \<open>Inputs and outputs of the spec's scenarios\<close>

definition scenario_messages :: "json list" where
  "scenario_messages =
     [JObj [(''role'', JStr ''system''), (''content'', JStr ''Be terse.'')],
      JObj [(''role'', JStr ''user''), (''content'', JStr ''Hi'')],
      JObj [(''role'', JStr ''assistant''), (''content'', JNull),
            (''tool_calls'',
             JList [JObj [(''id'', JStr ''c1''),
                          (''function'',
                           JObj [(''name'', JStr ''lookup''),
                                 (''arguments'', JObj [(''q'', JStr ''x'')])])]])],
      JObj [(''role'', JStr ''tool''), (''tool_call_id'', JStr ''c1''), (''content'', JStr ''42'')]]"

definition scenario_items :: "json list" where
  \<open>scenario_items =
     [JObj [(''role'', JStr ''user''),
            (''content'', JList [JObj [(''type'', JStr ''input_text''), (''text'', JStr ''Hi'')]])],
      JObj [(''type'', JStr ''function_call''), (''call_id'', JStr ''c1''),
            (''name'', JStr ''lookup''), (''arguments'', JStr ''{"q":"x"}'')],
      JObj [(''type'', JStr ''function_call_output''), (''call_id'', JStr ''c1''),
            (''output'', JStr ''42'')]]\<close>

section \<open>The merge policy of the instructions, in the spec's words\<close>

text \<open>
  The non-empty text extracted from one message, when it is a system or developer
  message; nothing for any other message.
\<close>

definition extracted_texts :: "json \<Rightarrow> string list" where
  "extracted_texts message =
     (case message of
        JObj msg \<Rightarrow>
          if dict_get msg ''role'' = JStr ''system'' \<or> dict_get msg ''role'' = JStr ''developer''
          then (case content_to_text (dict_get msg ''content'') of
                  Some t \<Rightarrow> if t \<noteq> [] then [t] else []
                | None \<Rightarrow> [])
          else []
      | _ \<Rightarrow> [])"

text \<open>
  Newline-join the non-empty extracted texts in input order; a non-empty new text is
  appended to non-empty existing instructions after a newline, or adopted when there are
  none; with no new text the existing instructions pass through.
\<close>

definition spec_merged_instructions :: "string \<Rightarrow> json list \<Rightarrow> string" where
  "spec_merged_instructions existing messages =
     (let new_text = join newline (concat (map extracted_texts messages))
      in if new_text \<noteq> []
         then (if existing \<noteq> [] then existing @ newline @ new_text else new_text)
         else existing)"

section \<open>The strings of a JSON value\<close>

text \<open>
  Every string that occurs in a value: its string values, the keys of its objects and
  the texts of its floats. They are what a compact encoding may take whitespace from.
\<close>

fun strings_of :: "json \<Rightarrow> string list"
  and strings_of_items :: "json list \<Rightarrow> string list"
  and strings_of_members :: "(string \<times> json) list \<Rightarrow> string list" where
  "strings_of JNull = []"
| "strings_of (JBool b) = []"
| "strings_of (JInt n) = []"
| "strings_of (JFloat r) = [r]"
| "strings_of (JStr s) = [s]"
| "strings_of (JList xs) = strings_of_items xs"
| "strings_of (JObj d) = strings_of_members d"
| "strings_of_items [] = []"
| "strings_of_items (x # xs) = strings_of x @ strings_of_items xs"
| "strings_of_members [] = []"
| "strings_of_members (p # ps) = fst p # strings_of (snd p) @ strings_of_members ps"

section \<open>The resolution of a tool call identifier, in the spec's words\<close>





text \<open>An assistant message with the malformed tool call of the spec, and its error.\<close>

definition malformed_tool_calls :: json where
  "malformed_tool_calls =
     JList [JObj [(''id'', JStr []), (''function'', JObj [(''name'', JStr ''f'')])]]"

definition empty_tool_call_id_error :: error where
  "empty_tool_call_id_error =
     ClientPayloadError MissingToolCallId
       (''assistant tool_calls[0] must include a non-empty '' @ [CHR 0x27] @ ''id'' @ [CHR 0x27]
          @ ''.'')
       ''messages''"

section \<open>Text-only content, in the claim's words and as the code checks it\<close>

text \<open>
  The rule of the claim for one element: a string, or an object whose \<open>type\<close> is absent
  or \<open>"text"\<close> and whose \<open>text\<close> is a string. A content conforms when it is null, a
  string, an array of such elements, or a single such object.
\<close>

fun claimed_text_part :: "json \<Rightarrow> bool" where
  "claimed_text_part (JStr s) = True"
| "claimed_text_part (JObj d) =
     ((\<not> dict_has d ''type'' \<or> dict_get d ''type'' = JStr ''text'')
      \<and> (case dict_get d ''text'' of JStr t \<Rightarrow> True | _ \<Rightarrow> False))"
| "claimed_text_part v = False"

fun claimed_text_only :: "json \<Rightarrow> bool" where
  "claimed_text_only JNull = True"
| "claimed_text_only (JStr s) = True"
| "claimed_text_only (JList xs) = list_all claimed_text_part xs"
| "claimed_text_only (JObj d) = claimed_text_part (JObj d)"
| "claimed_text_only v = False"

text \<open>The same rule with a \<open>type\<close> that is absent, null or \<open>"text"\<close>.\<close>

fun amended_text_part :: "json \<Rightarrow> bool" where
  "amended_text_part (JStr s) = True"
| "amended_text_part (JObj d) =
     ((\<not> dict_has d ''type'' \<or> dict_get d ''type'' = JNull \<or> dict_get d ''type'' = JStr ''text'')
      \<and> (case dict_get d ''text'' of JStr t \<Rightarrow> True | _ \<Rightarrow> False))"
| "amended_text_part v = False"

fun amended_text_only :: "json \<Rightarrow> bool" where
  "amended_text_only JNull = True"
| "amended_text_only (JStr s) = True"
| "amended_text_only (JList xs) = list_all amended_text_part xs"
| "amended_text_only (JObj d) = amended_text_part (JObj d)"
| "amended_text_only v = False"

text \<open>The contents of the spec's examples, and one whose part has a null \<open>type\<close>.\<close>

definition image_content :: json where
  "image_content = JList [JObj [(''type'', JStr ''image_url''), (''image_url'', JStr ''http://x'')]]"

definition null_type_content :: json where
  "null_type_content = JList [JObj [(''type'', JNull), (''text'', JStr ''x'')]]"

section \<open>Canonical content parts\<close>




section \<open>Properties\<close>

subsection \<open>Lookups in dict literals\<close>

lemma dict_get_Cons [simp]:
  "dict_get ((k', v) # d) k = (if k' = k then v else dict_get d k)"
  by (simp add: dict_get_def)

lemma dict_get_Nil [simp]: "dict_get [] k = JNull"
  by (simp add: dict_get_def)

lemma dict_has_Cons [simp]:
  "dict_has ((k', v) # d) k = (k' = k \<or> dict_has d k)"
  by (auto simp add: dict_has_def)

lemma dict_has_Nil [simp]: "\<not> dict_has [] k"
  by (simp add: dict_has_def)

lemma dict_get_nonnull_has: "dict_get d k \<noteq> JNull \<Longrightarrow> dict_has d k"
  by (auto simp add: dict_get_def dict_has_def split: option.splits)

subsection \<open>The scenario of the spec\<close>

text \<open>
  C1: on the four messages of the scenario (system "Be terse.", user "Hi", an assistant
  message with null content and one tool call \<open>c1\<close> of \<open>lookup\<close> with arguments
  \<open>{"q": "x"}\<close>, and the tool result "42" for \<open>c1\<close>) and the existing instructions "",
  \<open>coerce_messages\<close> returns the instructions "Be terse." and exactly three items, in
  this order: the user message with content \<open>[{type: input_text, text: "Hi"}]\<close>, the
  function call with arguments \<open>'{"q":"x"}'\<close>, and the function call output "42". The
  assistant message, whose content is empty, gives no message item: it gives the
  function call alone.
\<close>

theorem scenario_coerce_messages:
  "coerce_messages [] scenario_messages = Inr (''Be terse.'', scenario_items)
   \<and> length scenario_items = 3
   \<and> normalize_assistant_message_items
        [(''role'', JStr ''assistant''), (''content'', JNull),
         (''tool_calls'',
          JList [JObj [(''id'', JStr ''c1''),
                       (''function'',
                        JObj [(''name'', JStr ''lookup''),
                              (''arguments'', JObj [(''q'', JStr ''x'')])])]])]
      = Inr [scenario_items ! 1]"
  by code_simp

subsection \<open>A falsy \<open>type\<close> is defaulted like an absent one\<close>

text \<open>
  C9: a content part object whose \<open>type\<close> key is present with a falsy value (such as the
  empty string or \<open>false\<close>) and whose \<open>text\<close> is a string is classified as a text part:
  the normalizer emits \<open>{type: input_text, text: <text>}\<close> for it, as a single content
  object and as an element of a content array. The default of the type is taken for
  every falsy \<open>type\<close>, not only for an absent key.
\<close>

theorem falsy_type_defaults_to_text:
  assumes "dict_has part ''type''" and "\<not> truthy (dict_get part ''type'')"
    and "dict_get part ''text'' = JStr s"
  shows "normalize_content_part part = JObj [(''type'', JStr ''input_text''), (''text'', JStr s)]
     \<and> normalize_content_parts (JObj part)
         = JObj [(''type'', JStr ''input_text''), (''text'', JStr s)]
     \<and> normalize_content_parts (JList [JObj part])
         = JList [JObj [(''type'', JStr ''input_text''), (''text'', JStr s)]]"
proof -
  have has: "dict_has part ''text''"
    using assms(3) by (simp add: dict_get_nonnull_has)
  have "normalize_content_part part = JObj [(''type'', JStr ''input_text''), (''text'', JStr s)]"
    using assms has by (simp add: normalize_content_part_def py_or_def text_branch_def)
  then show ?thesis by simp
qed

theorem falsy_type_defaults_to_text_witness:
  "dict_has [(''type'', JStr []), (''text'', JStr ''x'')] ''type''
   \<and> \<not> truthy (dict_get [(''type'', JStr []), (''text'', JStr ''x'')] ''type'')
   \<and> normalize_content_part [(''type'', JStr []), (''text'', JStr ''x'')]
       = JObj [(''type'', JStr ''input_text''), (''text'', JStr ''x'')]
   \<and> dict_has [(''type'', JBool False), (''text'', JStr ''x'')] ''type''
   \<and> \<not> truthy (dict_get [(''type'', JBool False), (''text'', JStr ''x'')] ''type'')
   \<and> normalize_content_part [(''type'', JBool False), (''text'', JStr ''x'')]
       = JObj [(''type'', JStr ''input_text''), (''text'', JStr ''x'')]"
  using falsy_type_defaults_to_text [of "[(''type'', JStr []), (''text'', JStr ''x'')]" "''x''"]
    falsy_type_defaults_to_text [of "[(''type'', JBool False), (''text'', JStr ''x'')]" "''x''"]
  by simp

subsection \<open>The shapes that the part normalizer builds\<close>

lemma non_empty_str_Some: "non_empty_str v = Some s \<longleftrightarrow> v = JStr s \<and> s \<noteq> []"
  by (cases v) auto

lemma file_part_cases:
  "file_part_to_input_file v = [(''type'', JStr ''input_file'')]
   \<or> (\<exists>k u. file_part_to_input_file v = [(''type'', JStr ''input_file''), (k, JStr u)]
        \<and> (k = ''file_id'' \<or> k = ''file_url''))"
proof (cases v)
  case (JObj fi)
  show ?thesis
  proof (cases "non_empty_str (dict_get fi ''file_id'')")
    case (Some a)
    then show ?thesis using JObj by (simp add: file_part_to_input_file_def)
  next
    case None
    note n1 = this
    show ?thesis
    proof (cases "non_empty_str (dict_get fi ''file_url'')")
      case (Some a)
      then show ?thesis using JObj n1 by (simp add: file_part_to_input_file_def)
    next
      case None
      then show ?thesis using JObj n1
        by (cases "dict_get fi ''file_data''"; cases "dict_get fi ''data''")
           (simp_all add: file_part_to_input_file_def)
    qed
  qed
qed (simp_all add: file_part_to_input_file_def)

lemma file_part_shape:
  "file_part_to_input_file v \<noteq> []
   \<and> dict_get (file_part_to_input_file v) ''type'' = JStr ''input_file''
   \<and> dict_get (file_part_to_input_file v) ''text'' = JNull"
  using file_part_cases [of v] by auto

lemma text_branch_cases:
  "text_branch d = JObj d
   \<or> (\<exists>t. dict_get d ''text'' = JStr t
        \<and> text_branch d = JObj [(''type'', JStr ''input_text''), (''text'', JStr t)])"
  by (cases "dict_get d ''text''") (simp_all add: text_branch_def)

lemma image_url_branch_cases:
  "image_url_branch d = JObj d
   \<or> (\<exists>u rest. image_url_branch d
          = JObj ((''type'', JStr ''input_image'') # (''image_url'', JStr u) # rest)
        \<and> (rest = [] \<or> (\<exists>dv. rest = [(''detail'', JStr dv)])))"
proof (cases "dict_get d ''image_url''")
  case (JObj iu)
  then show ?thesis
    by (cases "dict_get iu ''url''"; cases "dict_get iu ''detail''")
       (simp_all add: image_url_branch_def)
qed (simp_all add: image_url_branch_def)

lemma input_audio_branch_cases:
  "input_audio_branch d = JObj d
   \<or> (\<exists>u. input_audio_branch d = JObj [(''type'', JStr ''input_file''), (''file_url'', JStr u)])"
  by (cases "audio_input_to_data_url (dict_get d ''input_audio'')")
     (simp_all add: input_audio_branch_def)

lemma normalize_content_part_branch:
  "normalize_content_part d = text_branch d
   \<or> normalize_content_part d = image_url_branch d
   \<or> normalize_content_part d = input_audio_branch d
   \<or> normalize_content_part d = JObj (file_part_to_input_file (dict_get d ''file''))
   \<or> normalize_content_part d = JObj d"
  by (simp add: normalize_content_part_def Let_def)

text \<open>The result of the part normalizer: the part itself or one of the built shapes.\<close>

lemma normalize_content_part_cases:
  "normalize_content_part d = JObj d
   \<or> (\<exists>t. dict_get d ''text'' = JStr t
        \<and> normalize_content_part d = JObj [(''type'', JStr ''input_text''), (''text'', JStr t)])
   \<or> (\<exists>u rest. normalize_content_part d
          = JObj ((''type'', JStr ''input_image'') # (''image_url'', JStr u) # rest)
        \<and> (rest = [] \<or> (\<exists>dv. rest = [(''detail'', JStr dv)])))
   \<or> (\<exists>u. normalize_content_part d = JObj [(''type'', JStr ''input_file''), (''file_url'', JStr u)])
   \<or> normalize_content_part d = JObj (file_part_to_input_file (dict_get d ''file''))"
proof -
  consider (t) "normalize_content_part d = text_branch d"
    | (i) "normalize_content_part d = image_url_branch d"
    | (a) "normalize_content_part d = input_audio_branch d"
    | (f) "normalize_content_part d = JObj (file_part_to_input_file (dict_get d ''file''))"
    | (p) "normalize_content_part d = JObj d"
    using normalize_content_part_branch by blast
  then show ?thesis
  proof cases
    case t
    then show ?thesis using text_branch_cases [of d] by metis
  next
    case i
    then show ?thesis using image_url_branch_cases [of d] by metis
  next
    case a
    then show ?thesis using input_audio_branch_cases [of d] by metis
  qed simp_all
qed

lemma null_text_survives_normalizer:
  assumes "d \<noteq> []" and "dict_get d ''text'' = JNull"
  shows "part_non_empty (normalize_content_part d)"
  using normalize_content_part_cases [of d] assms
  by (auto simp add: file_part_shape)

lemma tool_calls_loop_extends:
  "tool_calls_loop index tool_calls acc = Inr its \<Longrightarrow> \<exists>calls. its = acc @ calls"
proof (induction tool_calls arbitrary: index acc)
  case Nil
  then show ?case by simp
next
  case (Cons tc rest)
  then show ?case
    by (fastforce split: json.splits sum.splits)
qed

lemma dict_get_dict_set [simp]: "dict_get (dict_set d k v) k = v"
  by (induction d) (auto simp add: dict_get_def)

lemma dict_get_dict_set_other [simp]: "k' \<noteq> k \<Longrightarrow> dict_get (dict_set d k v) k' = dict_get d k'"
  by (induction d) (auto simp add: dict_get_def)

lemma dict_set_same: "dict_get d k = v \<Longrightarrow> v \<noteq> JNull \<Longrightarrow> dict_set d k v = d"
  by (induction d) (auto simp add: dict_get_def split: if_splits)

lemma normalize_message_content_eq:
  "normalize_message_content message =
     (if dict_get message ''content'' = JNull then message
      else dict_set message ''content'' (normalize_content_parts (dict_get message ''content'')))"
  by (simp add: normalize_message_content_def Let_def dict_set_same)

lemma content_of_normalized_message [simp]:
  "dict_get (normalize_message_content message) ''content''
     = normalize_content_parts (dict_get message ''content'')"
  by (simp add: normalize_message_content_eq)


subsection \<open>A part whose \<open>text\<close> is null counts as content\<close>

text \<open>
  C10: in the non-empty-content check of an assistant message, an array element that is
  a non-empty object whose \<open>text\<close> is JSON null is judged non-empty, exactly as a
  non-empty object with no \<open>text\<close> key is: the check reads \<open>part.get("text")\<close>, which is
  \<open>None\<close> in both cases. So a content array holding such an element is non-empty, an
  assistant message with such a content emits its message item first, and the assistant
  message with content \<open>[{"text": null}]\<close> is emitted as an item.
\<close>

theorem null_text_part_counts_as_content:
  assumes "d \<noteq> []" and "map_of d ''text'' = Some JNull \<or> map_of d ''text'' = None"
  shows "part_non_empty (JObj d)
     \<and> (\<forall>parts. JObj d \<in> set parts \<longrightarrow> has_non_empty_content (JList parts))
     \<and> (\<forall>message parts its.
           dict_get message ''content'' = JList parts \<and> JObj d \<in> set parts
           \<and> normalize_assistant_message_items message = Inr its
           \<longrightarrow> (\<exists>calls. its = JObj (normalize_message_content message) # calls))
     \<and> coerce_messages []
          [JObj [(''role'', JStr ''assistant''), (''content'', JList [JObj [(''text'', JNull)]])]]
        = Inr ([], [JObj [(''role'', JStr ''assistant''),
                          (''content'', JList [JObj [(''text'', JNull)]])]])"
proof -
  have null: "dict_get d ''text'' = JNull"
    using assms(2) by (auto simp add: dict_get_def)
  have one: "part_non_empty (JObj d)"
    using assms(1) null by simp
  have two: "has_non_empty_content (JList parts)" if "JObj d \<in> set parts" for parts
    using that one unfolding has_non_empty_content.simps list_ex_iff by blast
  have three: "\<exists>calls. its = JObj (normalize_message_content message) # calls"
    if c: "dict_get message ''content'' = JList parts" and m: "JObj d \<in> set parts"
      and r: "normalize_assistant_message_items message = Inr its" for message parts its
  proof -
    have "part_non_empty (normalize_part (JObj d))"
      using null_text_survives_normalizer [OF assms(1) null] by simp
    then have "\<exists>q \<in> set (map normalize_part parts). part_non_empty q"
      using m by (metis image_eqI list.set_map)
    then have "has_non_empty_content (normalize_content_parts (JList parts))"
      unfolding normalize_content_parts.simps has_non_empty_content.simps list_ex_iff .
    then have ne: "has_non_empty_content (dict_get (normalize_message_content message) ''content'')"
      using c by simp
    show ?thesis
    proof (cases "dict_get message ''tool_calls''")
      case (JList tcs)
      then have "tool_calls_loop 0 tcs [JObj (normalize_message_content message)] = Inr its"
        using r ne by (simp add: normalize_assistant_message_items_def Let_def)
      then show ?thesis
        using tool_calls_loop_extends by fastforce
    qed (use r ne in \<open>auto simp add: normalize_assistant_message_items_def Let_def\<close>)
  qed
  have four: "coerce_messages []
          [JObj [(''role'', JStr ''assistant''), (''content'', JList [JObj [(''text'', JNull)]])]]
        = Inr ([], [JObj [(''role'', JStr ''assistant''),
                          (''content'', JList [JObj [(''text'', JNull)]])]])"
    by code_simp
  from one two three four show ?thesis by blast
qed

theorem null_text_part_counts_as_content_witness:
  "[(''text'', JNull)] \<noteq> []
   \<and> (map_of [(''text'', JNull)] ''text'' = Some JNull \<or> map_of [(''text'', JNull)] ''text'' = None)
   \<and> part_non_empty (JObj [(''text'', JNull)])
   \<and> has_non_empty_content (JList [JObj [(''text'', JNull)]])
   \<and> [(''kind'', JStr ''x'')] \<noteq> []
   \<and> (map_of [(''kind'', JStr ''x'')] ''text'' = Some JNull \<or> map_of [(''kind'', JStr ''x'')] ''text'' = None)
   \<and> part_non_empty (JObj [(''kind'', JStr ''x'')])"
  using null_text_part_counts_as_content [of "[(''text'', JNull)]"]
    null_text_part_counts_as_content [of "[(''kind'', JStr ''x'')]"]
  by simp

subsection \<open>The content-part normalizer is idempotent\<close>

lemma canonical_image_or_file_unchanged:
  assumes "dict_get d ''type'' = JStr ''input_image'' \<or> dict_get d ''type'' = JStr ''input_file''"
  shows "normalize_content_part d = JObj d"
  using assms by (auto simp add: normalize_content_part_def py_or_def)

lemma canonical_text_unchanged:
  "normalize_content_part [(''type'', JStr ''input_text''), (''text'', JStr t)]
     = JObj [(''type'', JStr ''input_text''), (''text'', JStr t)]"
  by (simp add: normalize_content_part_def py_or_def text_branch_def)

lemma normalize_content_part_idem:
  "normalize_part (normalize_content_part d) = normalize_content_part d"
proof -
  consider (c_same) "normalize_content_part d = JObj d"
    | (c_text) t where "normalize_content_part d = JObj [(''type'', JStr ''input_text''), (''text'', JStr t)]"
    | (c_image) u rest where "normalize_content_part d
          = JObj ((''type'', JStr ''input_image'') # (''image_url'', JStr u) # rest)"
    | (c_audio) u where "normalize_content_part d
          = JObj [(''type'', JStr ''input_file''), (''file_url'', JStr u)]"
    | (c_file) "normalize_content_part d = JObj (file_part_to_input_file (dict_get d ''file''))"
    using normalize_content_part_cases [of d] by blast
  then show ?thesis
  proof cases
    case c_same
    then show ?thesis by simp
  next
    case c_text
    then show ?thesis by (simp add: canonical_text_unchanged)
  next
    case c_image
    then show ?thesis by (simp add: canonical_image_or_file_unchanged)
  next
    case c_audio
    then show ?thesis by (simp add: canonical_image_or_file_unchanged)
  next
    case c_file
    then show ?thesis by (simp add: canonical_image_or_file_unchanged file_part_shape)
  qed
qed

lemma normalize_part_idem: "normalize_part (normalize_part p) = normalize_part p"
  by (cases p) (simp_all add: canonical_text_unchanged normalize_content_part_idem)

lemma normalize_content_part_is_object: "\<exists>d'. normalize_content_part d = JObj d'"
  using normalize_content_part_cases [of d] by blast

lemma normalize_content_parts_idem:
  "normalize_content_parts (normalize_content_parts c) = normalize_content_parts c"
proof (cases c)
  case (JObj d)
  obtain d' where d': "normalize_content_part d = JObj d'"
    using normalize_content_part_is_object by blast
  have "normalize_part (JObj d') = JObj d'"
    using normalize_content_part_idem [of d] d' by simp
  then show ?thesis using JObj d' by simp
qed (simp_all add: canonical_text_unchanged normalize_part_idem)

lemma normalize_content_parts_not_null:
  "c \<noteq> JNull \<Longrightarrow> normalize_content_parts c \<noteq> JNull"
proof (cases c)
  case (JObj d)
  then show ?thesis using normalize_content_part_is_object [of d] by auto
qed simp_all

lemma dict_set_dict_set [simp]: "dict_set (dict_set d k v) k w = dict_set d k w"
  by (induction d) auto

lemma normalize_message_content_idem:
  "normalize_message_content (normalize_message_content m) = normalize_message_content m"
proof (cases "dict_get m ''content'' = JNull")
  case True
  then show ?thesis by (simp add: normalize_message_content_eq)
next
  case False
  then show ?thesis
    using normalize_content_parts_not_null [OF False]
    by (simp add: normalize_message_content_eq normalize_content_parts_idem)
qed

text \<open>
  C8: the content-part normalizer is idempotent. Applied to its own output it returns
  that output: for every raw content value, for every single part, and for a whole
  message whose content it rewrites. The parts it builds carry the tags \<open>input_text\<close>,
  \<open>input_image\<close> and \<open>input_file\<close>, and it leaves such a part as it is.
\<close>

theorem content_normalizer_idempotent:
  "normalize_content_parts (normalize_content_parts c) = normalize_content_parts c
   \<and> normalize_part (normalize_part p) = normalize_part p
   \<and> normalize_message_content (normalize_message_content m) = normalize_message_content m"
  by (simp add: normalize_content_parts_idem normalize_part_idem normalize_message_content_idem)

subsection \<open>The merged instructions\<close>

lemma message_step_texts:
  assumes "message_step m = Inr (texts, its)"
  shows "texts = extracted_texts m"
proof (cases m)
  case (JObj msg)
  show ?thesis
  proof (cases "dict_get msg ''role''")
    case (JStr role)
    then show ?thesis
      using assms JObj
      by (auto simp add: message_step_def extracted_texts_def supported_message_roles_def
          split: if_splits sum.splits option.splits)
  qed (use assms JObj in \<open>simp_all add: message_step_def\<close>)
qed (use assms in \<open>simp_all add: message_step_def\<close>)

lemma coerce_loop_texts:
  "coerce_loop msgs ps its = Inr (ps', its')
   \<Longrightarrow> ps' = ps @ concat (map extracted_texts msgs)"
proof (induction msgs arbitrary: ps its)
  case Nil
  then show ?case by simp
next
  case (Cons m msgs)
  then obtain texts new where step: "message_step m = Inr (texts, new)"
    and rest: "coerce_loop msgs (ps @ texts) (its @ new) = Inr (ps', its')"
    by (auto split: sum.splits)
  from Cons.IH [OF rest] message_step_texts [OF step] show ?case by simp
qed

lemma extracted_texts_cases:
  "extracted_texts m = [] \<or> (\<exists>t. t \<noteq> [] \<and> extracted_texts m = [t])"
  by (simp add: extracted_texts_def split: json.splits option.splits)

lemma extracted_texts_non_empty: "t \<in> set (extracted_texts m) \<Longrightarrow> t \<noteq> []"
  using extracted_texts_cases [of m] by auto

lemma join_eq_Nil: "join sep xs = [] \<Longrightarrow> \<forall>x \<in> set xs. x \<noteq> [] \<Longrightarrow> xs = []"
  by (induction sep xs rule: join.induct) auto

lemma merge_instructions_non_empty_parts:
  assumes "\<forall>p \<in> set parts. p \<noteq> []"
  shows "merge_instructions existing parts =
     (let new_text = join newline parts
      in if new_text \<noteq> []
         then (if existing \<noteq> [] then existing @ newline @ new_text else new_text)
         else existing)"
proof -
  have "filter (\<lambda>part. part \<noteq> []) parts = parts"
    using assms by (simp add: filter_id_conv)
  then show ?thesis
    by (auto simp add: merge_instructions_def join_non_empty_def Let_def)
qed

text \<open>
  C7: whenever \<open>coerce_messages\<close> returns, its instruction string is the one the merge
  policy describes: the non-empty texts extracted from the system and developer
  messages, in input order, are joined with newlines; a non-empty joined text is
  appended to non-empty existing instructions after a newline, and stands alone when the
  existing instructions are empty; with no non-empty new text the existing instructions
  are returned unchanged.
\<close>

theorem merged_instructions_follow_policy:
  assumes "coerce_messages existing messages = Inr (instructions, items)"
  shows "instructions = spec_merged_instructions existing messages"
proof -
  obtain parts where loop: "coerce_loop messages [] [] = Inr (parts, items)"
    and ins: "instructions = merge_instructions existing parts"
    using assms by (auto simp add: coerce_messages_def split: sum.splits)
  have parts: "parts = concat (map extracted_texts messages)"
    using coerce_loop_texts [OF loop] by simp
  then have "\<forall>p \<in> set parts. p \<noteq> []"
    using extracted_texts_non_empty by auto
  from merge_instructions_non_empty_parts [OF this] show ?thesis
    using ins parts by (simp add: spec_merged_instructions_def)
qed

theorem merged_instructions_follow_policy_witness:
  "coerce_messages ''Be kind.''
     [JObj [(''role'', JStr ''system''), (''content'', JStr ''Be terse.'')],
      JObj [(''role'', JStr ''user''), (''content'', JNull)],
      JObj [(''role'', JStr ''developer''), (''content'', JList [JStr ''Use SI.'', JStr []])]]
   = Inr (''Be kind.'' @ newline @ ''Be terse.'' @ newline @ ''Use SI.'',
          [JObj [(''role'', JStr ''user''), (''content'', JNull)]])
   \<and> spec_merged_instructions ''Be kind.''
     [JObj [(''role'', JStr ''system''), (''content'', JStr ''Be terse.'')],
      JObj [(''role'', JStr ''user''), (''content'', JNull)],
      JObj [(''role'', JStr ''developer''), (''content'', JList [JStr ''Use SI.'', JStr []])]]
   = ''Be kind.'' @ newline @ ''Be terse.'' @ newline @ ''Use SI.''"
proof -
  have run: "coerce_messages ''Be kind.''
     [JObj [(''role'', JStr ''system''), (''content'', JStr ''Be terse.'')],
      JObj [(''role'', JStr ''user''), (''content'', JNull)],
      JObj [(''role'', JStr ''developer''), (''content'', JList [JStr ''Use SI.'', JStr []])]]
   = Inr (''Be kind.'' @ newline @ ''Be terse.'' @ newline @ ''Use SI.'',
          [JObj [(''role'', JStr ''user''), (''content'', JNull)]])"
    by code_simp
  from merged_instructions_follow_policy [OF run] run show ?thesis by simp
qed

subsection \<open>The compact encoding adds no whitespace\<close>

lemma digit_char_in_digits: "k < 16 \<Longrightarrow> digit_char k \<in> set ''0123456789abcdef''"
  unfolding digit_char_def by (rule nth_mem) simp

lemma digits_not_space: "c \<in> set ''0123456789abcdef'' \<Longrightarrow> \<not> py_isspace c"
  by (auto simp add: py_isspace_def)

lemma digit_char_not_space: "k < 16 \<Longrightarrow> \<not> py_isspace (digit_char k)"
  using digit_char_in_digits digits_not_space by blast

lemma str_nat_not_space: "c \<in> set (str_nat n) \<Longrightarrow> \<not> py_isspace c"
proof (induction n rule: str_nat.induct)
  case (1 n)
  show ?case
  proof (cases "n < 10")
    case True
    then have "c = digit_char n" using "1.prems" by (simp add: str_nat.simps [of n])
    then show ?thesis using True digit_char_not_space [of n] by simp
  next
    case False
    then have "c \<in> set (str_nat (n div 10)) \<or> c = digit_char (n mod 10)"
      using "1.prems" by (auto simp add: str_nat.simps [of n])
    moreover have "n mod 10 < 16" by simp
    ultimately show ?thesis
      using "1.IH" [OF False] digit_char_not_space [of "n mod 10"] by blast
  qed
qed

lemma str_int_not_space: "c \<in> set (str_int i) \<Longrightarrow> \<not> py_isspace c"
  using str_nat_not_space
  by (auto simp add: str_int_def py_isspace_def split: if_splits)

lemma escape_char_space: "c' \<in> set (escape_char c) \<Longrightarrow> py_isspace c' \<Longrightarrow> c' = c"
proof -
  assume mem: "c' \<in> set (escape_char c)" and sp: "py_isspace c'"
  have d1: "(of_char c :: nat) < 32 \<Longrightarrow> \<not> py_isspace (digit_char ((of_char c :: nat) div 16))"
    by (rule digit_char_not_space) simp
  have d2: "\<not> py_isspace (digit_char ((of_char c :: nat) mod 16))"
    by (rule digit_char_not_space) simp
  have fixed: "\<not> py_isspace (CHR 0x5C)" "\<not> py_isspace (CHR 0x22)" "\<not> py_isspace CHR ''n''"
    "\<not> py_isspace CHR ''r''" "\<not> py_isspace CHR ''t''" "\<not> py_isspace CHR ''b''"
    "\<not> py_isspace CHR ''f''" "\<not> py_isspace CHR ''u''" "\<not> py_isspace CHR ''0''"
    by (simp_all add: py_isspace_def)
  show "c' = c"
    using mem sp d1 d2 fixed
    by (auto simp add: escape_char_def split: if_splits)
qed

lemma encode_basestring_space:
  "c \<in> set (encode_basestring s) \<Longrightarrow> py_isspace c \<Longrightarrow> c \<in> set s"
  using escape_char_space
  by (auto simp add: encode_basestring_def py_isspace_def)

lemma float_dumps_space: "c \<in> set (float_dumps r) \<Longrightarrow> py_isspace c \<Longrightarrow> c \<in> set r"
  by (auto simp add: float_dumps_def py_isspace_def split: if_splits)

lemma join_chars: "c \<in> set (join sep xs) \<Longrightarrow> c \<in> set sep \<or> (\<exists>x \<in> set xs. c \<in> set x)"
  by (induction sep xs rule: join.induct) auto


lemma punctuation_not_space:
  "\<not> py_isspace CHR ''[''" "\<not> py_isspace CHR '']''" "\<not> py_isspace CHR ''{''"
  "\<not> py_isspace CHR ''}''" "\<not> py_isspace CHR '',''" "\<not> py_isspace CHR '':''"
  by (simp_all add: py_isspace_def)

lemma literal_not_space:
  "c \<in> set ''null'' \<Longrightarrow> \<not> py_isspace c"
  "c \<in> set ''true'' \<Longrightarrow> \<not> py_isspace c"
  "c \<in> set ''false'' \<Longrightarrow> \<not> py_isspace c"
  by (auto simp add: py_isspace_def)

lemma json_dumps_adds_no_space:
  "\<forall>c \<in> set (json_dumps v). py_isspace c \<longrightarrow> (\<exists>s \<in> set (strings_of v). c \<in> set s)"
  "\<forall>e \<in> set (dumps_items xs). \<forall>c \<in> set e.
      py_isspace c \<longrightarrow> (\<exists>s \<in> set (strings_of_items xs). c \<in> set s)"
  "\<forall>e \<in> set (dumps_members d). \<forall>c \<in> set e.
      py_isspace c \<longrightarrow> (\<exists>s \<in> set (strings_of_members d). c \<in> set s)"
proof (induction v and xs and d rule: json_dumps_dumps_items_dumps_members.induct)
  case 1
  then show ?case using literal_not_space by simp
next
  case (2 b)
  then show ?case using literal_not_space by (cases b) simp_all
next
  case (3 n)
  then show ?case using str_int_not_space by auto
next
  case (4 r)
  then show ?case using float_dumps_space by auto
next
  case (5 s)
  then show ?case using encode_basestring_space by auto
next
  case (6 xs)
  show ?case
  proof (intro ballI impI)
    fix c assume c: "c \<in> set (json_dumps (JList xs))" and sp: "py_isspace c"
    then have "c \<in> set (join '','' (dumps_items xs))"
      using punctuation_not_space by auto
    then obtain e where "e \<in> set (dumps_items xs)" "c \<in> set e"
      using join_chars [of c "'',''" "dumps_items xs"] sp punctuation_not_space by auto
    then show "\<exists>s \<in> set (strings_of (JList xs)). c \<in> set s"
      using "6.IH" sp by auto
  qed
next
  case (7 d)
  show ?case
  proof (intro ballI impI)
    fix c assume c: "c \<in> set (json_dumps (JObj d))" and sp: "py_isspace c"
    then have "c \<in> set (join '','' (dumps_members d))"
      using punctuation_not_space by auto
    then obtain e where "e \<in> set (dumps_members d)" "c \<in> set e"
      using join_chars [of c "'',''" "dumps_members d"] sp punctuation_not_space by auto
    then show "\<exists>s \<in> set (strings_of (JObj d)). c \<in> set s"
      using "7.IH" sp by auto
  qed
next
  case 8
  then show ?case by simp
next
  case (9 x xs)
  then show ?case by (simp add: Bex_def) blast
next
  case 10
  then show ?case by simp
next
  case (11 p ps)
  show ?case
  proof (intro ballI impI)
    fix e c assume e: "e \<in> set (dumps_members (p # ps))" and c: "c \<in> set e" and sp: "py_isspace c"
    consider (hd) "e = encode_basestring (fst p) @ '':'' @ json_dumps (snd p)"
      | (tl) "e \<in> set (dumps_members ps)"
      using e by auto
    then show "\<exists>s \<in> set (strings_of_members (p # ps)). c \<in> set s"
    proof cases
      case hd
      then have "c \<in> set (encode_basestring (fst p)) \<or> c \<in> set (json_dumps (snd p))"
        using c sp punctuation_not_space by auto
      then show ?thesis
        using encode_basestring_space [of c "fst p"] "11.IH"(1) sp by auto
    next
      case tl
      then show ?thesis using "11.IH"(2) c sp by auto
    qed
  qed
qed


subsection \<open>The arguments of a function call\<close>

text \<open>
  C4: for an assistant tool call with a non-empty string \<open>id\<close> and a \<open>function\<close> object
  with a non-empty string \<open>name\<close>, the function call item is emitted and its \<open>arguments\<close>
  field is the normalized \<open>function.arguments\<close>: the string \<open>"{}"\<close> for null, a string
  verbatim, the compact JSON encoding for an object or an array, and the string form
  for any other scalar. The compact encoding adds no whitespace: every whitespace
  character in it is a character of a string of the encoded value. For example
  \<open>{"x": 1}\<close> gives \<open>'{"x":1}'\<close> and \<open>"raw"\<close> gives \<open>"raw"\<close>.
\<close>

theorem tool_call_arguments_encoding:
  assumes "non_empty_str (dict_get tool_call ''id'') = Some call_id"
    and "dict_get tool_call ''function'' = JObj function"
    and "non_empty_str (dict_get function ''name'') = Some name"
  shows \<open>normalize_assistant_tool_call tool_call index =
           Inr (JObj [(''type'', JStr ''function_call''),
                      (''call_id'', JStr call_id),
                      (''name'', JStr name),
                      (''arguments'',
                       JStr (normalize_tool_call_arguments (dict_get function ''arguments'')))])
     \<and> normalize_tool_call_arguments JNull = ''{}''
     \<and> (\<forall>s. normalize_tool_call_arguments (JStr s) = s)
     \<and> (\<forall>d. normalize_tool_call_arguments (JObj d) = json_dumps (JObj d))
     \<and> (\<forall>xs. normalize_tool_call_arguments (JList xs) = json_dumps (JList xs))
     \<and> (\<forall>v. is_json_dict v \<or> is_json_list v \<longrightarrow>
           (\<forall>c \<in> set (normalize_tool_call_arguments v).
              py_isspace c \<longrightarrow> (\<exists>s \<in> set (strings_of v). c \<in> set s)))
     \<and> normalize_tool_call_arguments (JObj [(''x'', JInt 1)]) = ''{"x":1}''
     \<and> normalize_tool_call_arguments (JStr ''raw'') = ''raw''
     \<and> (\<forall>b. normalize_tool_call_arguments (JBool b) = (if b then ''True'' else ''False''))
     \<and> (\<forall>n. normalize_tool_call_arguments (JInt n) = str_int n)
     \<and> (\<forall>r. normalize_tool_call_arguments (JFloat r) = r)\<close>
proof -
  have call: "normalize_assistant_tool_call tool_call index =
           Inr (JObj [(''type'', JStr ''function_call''),
                      (''call_id'', JStr call_id),
                      (''name'', JStr name),
                      (''arguments'',
                       JStr (normalize_tool_call_arguments (dict_get function ''arguments'')))])"
    using assms by (simp add: normalize_assistant_tool_call_def)
  have compact: "\<forall>c \<in> set (normalize_tool_call_arguments v).
              py_isspace c \<longrightarrow> (\<exists>s \<in> set (strings_of v). c \<in> set s)"
    if "is_json_dict v \<or> is_json_list v" for v
  proof (cases v)
    case (JList xs)
    then show ?thesis using json_dumps_adds_no_space(1) [of "JList xs"] by simp
  next
    case (JObj d)
    then show ?thesis using json_dumps_adds_no_space(1) [of "JObj d"] by simp
  qed (use that in simp_all)
  have example: \<open>normalize_tool_call_arguments (JObj [(''x'', JInt 1)]) = ''{"x":1}''\<close>
    by code_simp
  show ?thesis
    using call compact example by (simp add: str_bool_def)
qed

theorem tool_call_arguments_encoding_witness:
  \<open>non_empty_str (dict_get [(''id'', JStr ''c1''),
        (''function'', JObj [(''name'', JStr ''f''), (''arguments'', JObj [(''x'', JInt 1)])])] ''id'')
     = Some ''c1''
   \<and> non_empty_str (dict_get [(''name'', JStr ''f''), (''arguments'', JObj [(''x'', JInt 1)])] ''name'')
     = Some ''f''
   \<and> normalize_assistant_tool_call
        [(''id'', JStr ''c1''),
         (''function'', JObj [(''name'', JStr ''f''), (''arguments'', JObj [(''x'', JInt 1)])])] 0
     = Inr (JObj [(''type'', JStr ''function_call''), (''call_id'', JStr ''c1''),
                  (''name'', JStr ''f''), (''arguments'', JStr ''{"x":1}'')])\<close>
proof -
  have args: \<open>normalize_tool_call_arguments (JObj [(''x'', JInt 1)]) = ''{"x":1}''\<close>
    by code_simp
  show ?thesis
    using tool_call_arguments_encoding
      [of "[(''id'', JStr ''c1''),
            (''function'', JObj [(''name'', JStr ''f''), (''arguments'', JObj [(''x'', JInt 1)])])]"
          "''c1''" "[(''name'', JStr ''f''), (''arguments'', JObj [(''x'', JInt 1)])]" "''f''" 0]
      args
    by simp
qed

subsection \<open>The loop over the messages: what one message contributes, and failures\<close>

lemma coerce_loop_append:
  "coerce_loop (pre @ rest) ps its =
     (case coerce_loop pre ps its of
        Inl e \<Rightarrow> Inl e
      | Inr (ps', its') \<Rightarrow> coerce_loop rest ps' its')"
  by (induction pre arbitrary: ps its) (auto split: sum.splits)



lemma coerce_messages_Inr:
  "coerce_messages existing msgs = Inr (ins, items)
   \<longleftrightarrow> (\<exists>parts. coerce_loop msgs [] [] = Inr (parts, items)
                 \<and> ins = merge_instructions existing parts)"
  by (auto simp add: coerce_messages_def split: sum.splits)

lemma coerce_messages_Inl:
  "coerce_messages existing msgs = Inl e \<longleftrightarrow> coerce_loop msgs [] [] = Inl e"
  by (auto simp add: coerce_messages_def split: sum.splits)

lemma earlier_failure_decides:
  "coerce_messages existing pre = Inl e \<Longrightarrow> coerce_messages existing (pre @ rest) = Inl e"
  by (simp add: coerce_messages_Inl coerce_loop_append)

lemma first_failure_decides:
  assumes "coerce_messages existing pre = Inr r" and "message_step m = Inl e"
  shows "coerce_messages existing (pre @ m # post) = Inl e"
proof -
  obtain ins items where "r = (ins, items)" by (cases r)
  then obtain parts where "coerce_loop pre [] [] = Inr (parts, items)"
    using assms(1) by (auto simp add: coerce_messages_Inr)
  then show ?thesis
    using assms(2) by (simp add: coerce_messages_Inl coerce_loop_append)
qed

lemma rejected_message_fails_call:
  assumes "message_step m = Inl e"
  shows "\<exists>e'. coerce_messages existing (pre @ m # post) = Inl e'"
proof (cases "coerce_messages existing pre")
  case (Inl a)
  then show ?thesis using earlier_failure_decides by blast
next
  case (Inr b)
  then show ?thesis using first_failure_decides [OF Inr assms] by blast
qed

subsection \<open>The call identifier of a tool message\<close>





subsection \<open>A malformed tool call rejects the whole call\<close>

lemma tool_call_prefix_0: "tool_call_prefix 0 = ''assistant tool_calls[0]''"
  by (simp add: tool_call_prefix_def str_nat.simps [of 0] digit_char_def)

lemma malformed_tool_call_step:
  assumes "dict_get message ''role'' = JStr ''assistant''"
    and "dict_get message ''tool_calls'' = malformed_tool_calls"
  shows "message_step (JObj message) = Inl empty_tool_call_id_error"
proof -
  have "normalize_assistant_tool_call
          [(''id'', JStr []), (''function'', JObj [(''name'', JStr ''f'')])] 0
        = Inl empty_tool_call_id_error"
    by (simp add: normalize_assistant_tool_call_def empty_tool_call_id_error_def
        tool_call_prefix_0)
  then have "normalize_assistant_message_items message = Inl empty_tool_call_id_error"
    using assms(2)
    by (simp add: normalize_assistant_message_items_def malformed_tool_calls_def Let_def)
  then show ?thesis
    using assms(1) by (simp add: message_step_def supported_message_roles_def)
qed

text \<open>
  C6, as stated, fails: an input that holds the assistant message with
  \<open>tool_calls=[{id:"", function:{name:"f"}}]\<close> after a message with an unsupported role
  fails with the error of that earlier message, which is not of the
  MissingToolCallId class.
\<close>

theorem malformed_tool_call_counterexample:
  "coerce_messages []
     [JObj [(''role'', JStr ''bogus'')],
      JObj [(''role'', JStr ''assistant''), (''tool_calls'', malformed_tool_calls)]]
   = Inl (ClientPayloadError UnsupportedRole ''Unsupported message role: bogus'' ''messages'')
   \<and> err_class (ClientPayloadError UnsupportedRole ''Unsupported message role: bogus'' ''messages'')
       \<noteq> MissingToolCallId"
  by (simp add: coerce_messages_def message_step_def supported_message_roles_def)

text \<open>
  C6, amended: every input that holds an assistant message with
  \<open>tool_calls=[{id:"", function:{name:"f"}}]\<close> fails as a whole: \<open>coerce_messages\<close> raises
  and returns no pair of instructions and items, whatever comes before and after the
  message. The error is the MissingToolCallId-class error of that tool call when every
  message before the assistant message is accepted, and it is the error of the earlier
  rejected message otherwise.
\<close>

theorem malformed_tool_call_rejects_call:
  assumes "dict_get message ''role'' = JStr ''assistant''"
    and "dict_get message ''tool_calls'' = malformed_tool_calls"
  shows "message_step (JObj message) = Inl empty_tool_call_id_error
     \<and> err_class empty_tool_call_id_error = MissingToolCallId
     \<and> (\<exists>e. coerce_messages existing (pre @ JObj message # post) = Inl e)
     \<and> (\<forall>r. coerce_messages existing (pre @ JObj message # post) \<noteq> Inr r)
     \<and> (\<forall>r. coerce_messages existing pre = Inr r \<longrightarrow>
           coerce_messages existing (pre @ JObj message # post) = Inl empty_tool_call_id_error)
     \<and> (\<forall>e. coerce_messages existing pre = Inl e \<longrightarrow>
           coerce_messages existing (pre @ JObj message # post) = Inl e)"
proof -
  note step = malformed_tool_call_step [OF assms]
  obtain e where fails: "coerce_messages existing (pre @ JObj message # post) = Inl e"
    using rejected_message_fails_call [OF step] by blast
  then have none: "\<forall>r. coerce_messages existing (pre @ JObj message # post) \<noteq> Inr r"
    by simp
  have cls: "err_class empty_tool_call_id_error = MissingToolCallId"
    by (simp add: empty_tool_call_id_error_def)
  show ?thesis
    using step cls fails none first_failure_decides [OF _ step] earlier_failure_decides
    by blast
qed

theorem malformed_tool_call_rejects_call_witness:
  "dict_get [(''role'', JStr ''assistant''), (''tool_calls'', malformed_tool_calls)] ''role''
     = JStr ''assistant''
   \<and> dict_get [(''role'', JStr ''assistant''), (''tool_calls'', malformed_tool_calls)] ''tool_calls''
     = malformed_tool_calls
   \<and> coerce_messages [] [JObj [(''role'', JStr ''user'')]] = Inr ([], [JObj [(''role'', JStr ''user'')]])
   \<and> coerce_messages []
        [JObj [(''role'', JStr ''user'')],
         JObj [(''role'', JStr ''assistant''), (''tool_calls'', malformed_tool_calls)],
         JObj [(''role'', JStr ''user'')]]
     = Inl empty_tool_call_id_error"
proof -
  have pre: "coerce_messages [] [JObj [(''role'', JStr ''user'')]]
               = Inr ([], [JObj [(''role'', JStr ''user'')]])"
    by code_simp
  have "coerce_messages []
          ([JObj [(''role'', JStr ''user'')]]
           @ JObj [(''role'', JStr ''assistant''), (''tool_calls'', malformed_tool_calls)]
           # [JObj [(''role'', JStr ''user'')]])
        = Inl empty_tool_call_id_error"
    using malformed_tool_call_rejects_call
      [of "[(''role'', JStr ''assistant''), (''tool_calls'', malformed_tool_calls)]"
          "[]" "[JObj [(''role'', JStr ''user'')]]" "[JObj [(''role'', JStr ''user'')]]"]
      pre
    by simp
  then show ?thesis using pre by simp
qed

subsection \<open>System and developer messages are text-only\<close>

lemma dict_get_absent: "\<not> dict_has d k \<Longrightarrow> dict_get d k = JNull"
  by (simp add: dict_has_def dict_get_def)

lemma text_only_part_amended: "text_only_part p = amended_text_part p"
proof (cases p)
  case (JObj d)
  then show ?thesis
    using dict_get_absent [of d "''type''"] by (cases "dict_get d ''text''") auto
qed simp_all

lemma ensure_text_only_content_amended:
  "ensure_text_only_content content role =
     (if amended_text_only content then Inr () else Inl (text_only_error role))"
proof (cases content)
  case (JList xs)
  have "list_all text_only_part xs = list_all amended_text_part xs"
    by (simp add: text_only_part_amended list_all_iff)
  then show ?thesis using JList by simp
next
  case (JObj d)
  then show ?thesis
    using dict_get_absent [of d "''type''"] by (cases "dict_get d ''text''") auto
qed simp_all

lemma system_message_step:
  assumes "role = ''system'' \<or> role = ''developer''"
    and "dict_get message ''role'' = JStr role"
  shows "message_step (JObj message) =
     (if amended_text_only (dict_get message ''content'')
      then Inr (extracted_texts (JObj message), [])
      else Inl (text_only_error role))"
  by (cases "content_to_text (dict_get message ''content'')")
     (use assms in \<open>auto simp add: message_step_def supported_message_roles_def
        extracted_texts_def ensure_text_only_content_amended\<close>)


text \<open>
  C5, as stated, fails: the content \<open>[{"type": null, "text": "x"}]\<close> has a part whose
  \<open>type\<close> is present and is not \<open>"text"\<close>, so it conforms to none of the shapes of the
  claim, and yet the check accepts it and the system message merges "x" into the
  instructions.
\<close>

theorem null_type_counterexample:
  "\<not> claimed_text_only null_type_content
   \<and> ensure_text_only_content null_type_content ''system'' = Inr ()
   \<and> coerce_messages []
        [JObj [(''role'', JStr ''system''), (''content'', null_type_content)]]
      = Inr (''x'', [])"
  by (simp add: null_type_content_def coerce_messages_def message_step_def
      supported_message_roles_def merge_instructions_def join_non_empty_def
      List.map_filter_simps)

text \<open>
  C5, amended: for every system or developer message, the text-only check of its content
  fails, with the NonTextContent-class error, exactly when the content is neither null,
  nor a string, nor an array whose every element is a string or an object with \<open>type\<close>
  absent, null or \<open>"text"\<close> and a string \<open>text\<close>, nor a single object satisfying that same
  rule. The coercion of the message alone fails with that error in exactly these cases,
  and a coercion of any input holding such a message fails, with that error when the
  messages before it are accepted. The system message with content
  \<open>[{"type": "image_url", "image_url": "http://x"}]\<close> fails, and the one with content
  "hello" succeeds and merges "hello" into the instructions.
\<close>

theorem text_only_enforcement:
  assumes "role = ''system'' \<or> role = ''developer''"
    and "dict_get message ''role'' = JStr role"
  shows "ensure_text_only_content (dict_get message ''content'') role =
           (if amended_text_only (dict_get message ''content'') then Inr ()
            else Inl (text_only_error role))
     \<and> err_class (text_only_error role) = NonTextContent
     \<and> ((\<exists>e. message_step (JObj message) = Inl e \<and> err_class e = NonTextContent)
          \<longleftrightarrow> \<not> amended_text_only (dict_get message ''content''))
     \<and> ((\<exists>e. coerce_messages existing [JObj message] = Inl e \<and> err_class e = NonTextContent)
          \<longleftrightarrow> \<not> amended_text_only (dict_get message ''content''))
     \<and> (\<not> amended_text_only (dict_get message ''content'') \<longrightarrow>
          (\<exists>e. coerce_messages existing (pre @ JObj message # post) = Inl e)
          \<and> (\<forall>r. coerce_messages existing pre = Inr r \<longrightarrow>
                coerce_messages existing (pre @ JObj message # post)
                  = Inl (text_only_error role)))
     \<and> \<not> amended_text_only image_content
     \<and> coerce_messages existing
          [JObj [(''role'', JStr ''system''), (''content'', image_content)]]
        = Inl (text_only_error ''system'')
     \<and> amended_text_only (JStr ''hello'')
     \<and> coerce_messages existing
          [JObj [(''role'', JStr ''system''), (''content'', JStr ''hello'')]]
        = Inr (if existing = [] then ''hello'' else existing @ newline @ ''hello'', [])"
proof -
  let ?ok = "amended_text_only (dict_get message ''content'')"
  note step = system_message_step [OF assms]
  have cls: "err_class (text_only_error role) = NonTextContent"
    by (simp add: text_only_error_def)
  have one: "(\<exists>e. message_step (JObj message) = Inl e \<and> err_class e = NonTextContent) \<longleftrightarrow> \<not> ?ok"
    using step cls by auto
  have single: "coerce_messages existing [JObj message] =
      (if ?ok then Inr (merge_instructions existing (extracted_texts (JObj message)), [])
       else Inl (text_only_error role))"
    using step by (simp add: coerce_messages_def)
  then have two: "(\<exists>e. coerce_messages existing [JObj message] = Inl e \<and> err_class e = NonTextContent)
      \<longleftrightarrow> \<not> ?ok"
    using cls by auto
  have three: "(\<exists>e. coerce_messages existing (pre @ JObj message # post) = Inl e)
          \<and> (\<forall>r. coerce_messages existing pre = Inr r \<longrightarrow>
                coerce_messages existing (pre @ JObj message # post)
                  = Inl (text_only_error role))"
    if "\<not> ?ok"
  proof -
    have bad: "message_step (JObj message) = Inl (text_only_error role)"
      using step that by simp
    show ?thesis
      using rejected_message_fails_call [OF bad] first_failure_decides [OF _ bad] by blast
  qed
  have img: "\<not> amended_text_only image_content"
    by (simp add: image_content_def)
  have img_run: "coerce_messages existing
          [JObj [(''role'', JStr ''system''), (''content'', image_content)]]
        = Inl (text_only_error ''system'')"
    by (simp add: image_content_def coerce_messages_def message_step_def
        supported_message_roles_def)
  have hello_run: "coerce_messages existing
          [JObj [(''role'', JStr ''system''), (''content'', JStr ''hello'')]]
        = Inr (if existing = [] then ''hello'' else existing @ newline @ ''hello'', [])"
    by (simp add: coerce_messages_def message_step_def supported_message_roles_def
        merge_instructions_def join_non_empty_def)
  show ?thesis
    using ensure_text_only_content_amended [of "dict_get message ''content''" role]
      cls one two three img img_run hello_run
    by simp
qed

theorem text_only_enforcement_witness:
  "(''system'' = ''system'' \<or> ''system'' = ''developer'')
   \<and> dict_get [(''role'', JStr ''system''), (''content'', null_type_content)] ''role'' = JStr ''system''
   \<and> amended_text_only null_type_content
   \<and> ensure_text_only_content null_type_content ''system'' = Inr ()
   \<and> dict_get [(''role'', JStr ''system''), (''content'', JInt 3)] ''role'' = JStr ''system''
   \<and> \<not> amended_text_only (JInt 3)
   \<and> coerce_messages [] ([] @ JObj [(''role'', JStr ''system''), (''content'', JInt 3)] # [])
       = Inl (text_only_error ''system'')"
proof -
  have empty: "coerce_messages [] [] = Inr ([], [])"
    by (simp add: coerce_messages_def merge_instructions_def)
  have ok: "amended_text_only null_type_content"
    by (simp add: null_type_content_def)
  show ?thesis
    using text_only_enforcement
        [of "''system''" "[(''role'', JStr ''system''), (''content'', null_type_content)]" "[]" "[]" "[]"]
      text_only_enforcement
        [of "''system''" "[(''role'', JStr ''system''), (''content'', JInt 3)]" "[]" "[]" "[]"]
      empty ok
    by simp
qed

subsection \<open>The content parts of the emitted messages\<close>









end
